theory Spec2Isabelle
  imports Complex_Main "HOL-Library.Sublist"
begin

section \<open>Python numbers\<close>

text \<open>
  The frame rates of the configuration are Python floats. They are modelled by exact
  rationals: the model computes the mathematical value of each expression and leaves the
  rounding error of IEEE doubles out.
\<close>

text \<open>Python's \<^verbatim>\<open>round(x)\<close> on a float: to the nearest integer, ties to the even one.\<close>

definition py_round :: "rat \<Rightarrow> int" where
  "py_round x =
     (let f = \<lfloor>x\<rfloor>; d = x - of_int f
      in if d < 1 / 2 then f
         else if 1 / 2 < d then f + 1
         else if even f then f else f + 1)"

text \<open>Python's \<^verbatim>\<open>int(x)\<close> on a float: truncation towards zero.\<close>

definition py_int :: "rat \<Rightarrow> int" where
  "py_int x = (if 0 \<le> x then \<lfloor>x\<rfloor> else \<lceil>x\<rceil>)"

section \<open>Python strings and integers as text\<close>

text \<open>
  Strings are lists of 8-bit characters: the model covers ASCII text.
\<close>

definition is_digit :: "char \<Rightarrow> bool" where
  "is_digit c = (48 \<le> (of_char c :: nat) \<and> (of_char c :: nat) \<le> 57)"

definition digit_val :: "char \<Rightarrow> nat" where
  "digit_val c = of_char c - 48"

definition digit_char :: "nat \<Rightarrow> char" where
  "digit_char d = char_of (48 + d)"

fun digits :: "nat \<Rightarrow> string" where
  "digits n = (if n < 10 then [digit_char n] else digits (n div 10) @ [digit_char (n mod 10)])"

declare digits.simps [simp del]

text \<open>\<^verbatim>\<open>str(i)\<close> and \<^verbatim>\<open>repr(i)\<close> of an integer.\<close>

definition py_str_int :: "int \<Rightarrow> string" where
  "py_str_int i = (if i < 0 then CHR ''-'' # digits (nat (- i)) else digits (nat i))"

definition decimal_value :: "string \<Rightarrow> nat" where
  "decimal_value ds = foldl (\<lambda>a c. 10 * a + digit_val c) 0 ds"

text \<open>
  The whitespace that \<^verbatim>\<open>str.strip\<close> and \<^verbatim>\<open>int\<close> skip, among the
  ASCII characters: tab, line feed, vertical tab, form feed, carriage return, the four
  separators 28 to 31 and the space.
\<close>

definition is_space :: "char \<Rightarrow> bool" where
  "is_space c = (let n = (of_char c :: nat) in (9 \<le> n \<and> n \<le> 13) \<or> (28 \<le> n \<and> n \<le> 32))"

definition strip :: "string \<Rightarrow> string" where
  "strip s = rev (dropWhile is_space (rev (dropWhile is_space s)))"

text \<open>
  The digits of an integer literal given to \<^verbatim>\<open>int\<close>: a digit first, a digit
  last, and single underscores between digits.
\<close>

fun int_body_ok :: "string \<Rightarrow> bool" where
  "int_body_ok [] = False"
| "int_body_ok [c] = is_digit c"
| "int_body_ok (c # d # cs) =
     (if is_digit c then (if d = CHR ''_'' then int_body_ok cs else int_body_ok (d # cs))
      else False)"

definition int_body :: "string \<Rightarrow> int option" where
  "int_body s =
     (if int_body_ok s then Some (int (decimal_value (filter (\<lambda>c. c \<noteq> CHR ''_'') s)))
      else None)"

text \<open>\<^verbatim>\<open>int(text)\<close> in base ten; \<open>None\<close> is the ValueError.\<close>

definition py_int_of_str :: "string \<Rightarrow> int option" where
  "py_int_of_str text =
     (case strip text of
        [] \<Rightarrow> None
      | c # cs \<Rightarrow>
          if c = CHR ''-'' then map_option uminus (int_body cs)
          else if c = CHR ''+'' then int_body cs
          else int_body (c # cs))"

section \<open>The main window and its collaborators\<close>

datatype exn = ValueError | TypeError | AttributeError | SyntaxError | OSError
  | ZeroDivisionError | OtherError

datatype event_type = KeyPress | KeyRelease | MouseButtonPress | OtherEvent

record qevent =
  etype :: event_type
  ev_key :: int

datatype playback_state = StoppedState | PlayingState | PausedState

datatype btn_text = PlayGlyph | PauseGlyph

record qtimer =
  active :: bool
  interval :: int

text \<open>
  \<^verbatim>\<open>cfg.config\<close> is not part of the sources; the two rates the window reads
  from it are the fields of this record.
\<close>

record config =
  PLAYBACK_FPS :: rat
  VIDEO_FPS_ORIGINAL :: rat

text \<open>
  The calls the window makes on the media player, the playback controller, the key
  handler and itself, in the order they are made.
\<close>

datatype call =
    MediaPlay
  | MediaPause
  | JumpToFrame int
  | HandleKeyPress qevent
  | SetFocus
  | FrameInputSetFocus
  | MarkersWidgetUpdate

datatype kind = ADD | REMOVE

record operation =
  op_kind :: kind
  op_key :: string
  op_frame :: int

record event_manager =
  markers :: "(string \<times> int list) list"
  undo_stack :: "operation list"
  redo_stack :: "operation list"

record video_player =
  event_manager :: event_manager
  is_slider_pressed :: bool
  frame_editing :: bool
  save_status :: bool
  fname :: "string option"
  time_slider_value :: int
  frame_input_text :: string
  frame_input_visible :: bool
  frame_label_visible :: bool
  play_btn_text :: btn_text
  frame_timer :: qtimer
  calls :: "call list"

subsection \<open>Playback state and the frame timer\<close>

definition on_playback_state_changed ::
  "config \<Rightarrow> video_player \<Rightarrow> playback_state \<Rightarrow> exn option \<times> video_player" where
  "on_playback_state_changed cfg self state =
     (if state = PlayingState then
        (let self1 = self\<lparr>play_btn_text := PauseGlyph\<rparr>
         in if PLAYBACK_FPS cfg = 0 then (Some ZeroDivisionError, self1)
            else (None, self1\<lparr>frame_timer :=
                    \<lparr>active = True, interval = py_int (1000 / PLAYBACK_FPS cfg)\<rparr>\<rparr>))
      else
        (None, self\<lparr>play_btn_text := PlayGlyph,
                     frame_timer := (frame_timer self)\<lparr>active := False\<rparr>\<rparr>))"

subsection \<open>Key dispatch\<close>

definition keyPressEvent :: "video_player \<Rightarrow> qevent \<Rightarrow> video_player" where
  "keyPressEvent self event = self\<lparr>calls := calls self @ [HandleKeyPress event]\<rparr>"

text \<open>The inherited \<^verbatim>\<open>eventFilter\<close> of Qt filters nothing: it returns False.\<close>

definition eventFilter :: "video_player \<Rightarrow> qevent \<Rightarrow> bool \<times> video_player" where
  "eventFilter self event =
     (if etype event = KeyPress \<and> \<not> frame_editing self
      then (True, keyPressEvent self event)
      else (False, self))"

subsection \<open>The slider\<close>

definition slider_pressed :: "video_player \<Rightarrow> video_player" where
  "slider_pressed self = self\<lparr>is_slider_pressed := True\<rparr>"

definition slider_released :: "config \<Rightarrow> video_player \<Rightarrow> video_player" where
  "slider_released cfg self =
     (let self1 = self\<lparr>is_slider_pressed := False\<rparr>;
          target_frame = py_round (of_int (time_slider_value self1) * VIDEO_FPS_ORIGINAL cfg / 1000)
      in self1\<lparr>calls := calls self1 @ [JumpToFrame target_frame]\<rparr>)"

subsection \<open>Editing the frame number\<close>

text \<open>
  \<^verbatim>\<open>PlaybackController.get_current_frame\<close> is not part of the sources: the frame it
  returns is the argument \<open>current_frame\<close>.
\<close>

definition enable_frame_edit :: "int \<Rightarrow> video_player \<Rightarrow> video_player" where
  "enable_frame_edit current_frame self =
     self\<lparr>frame_editing := True,
          frame_label_visible := False,
          frame_input_visible := True,
          frame_input_text := py_str_int current_frame,
          calls := calls self @ [FrameInputSetFocus, MediaPause]\<rparr>"

text \<open>
  \<^verbatim>\<open>PlaybackController.jump_to_frame\<close> is not part of the sources either. Its
  call is recorded, and \<open>jump_raises\<close> tells which exception, if any, it raises for a
  frame. An exception that the \<^verbatim>\<open>except\<close> clause does not catch leaves the method
  after the \<^verbatim>\<open>finally\<close> block has run; it is the first component of the result.
\<close>

definition frame_edit_finally :: "video_player \<Rightarrow> video_player" where
  "frame_edit_finally self =
     self\<lparr>frame_editing := False,
          frame_input_visible := False,
          frame_label_visible := True,
          calls := calls self @ [SetFocus]\<rparr>"

definition jump_to_frame_from_input ::
  "(int \<Rightarrow> exn option) \<Rightarrow> video_player \<Rightarrow> exn option \<times> video_player" where
  "jump_to_frame_from_input jump_raises self =
     (let frame_text = frame_input_text self
      in if frame_text = [] then
           (None, frame_edit_finally (self\<lparr>calls := calls self @ [MediaPlay]\<rparr>))
         else
           (case py_int_of_str frame_text of
              None \<Rightarrow> (None, frame_edit_finally self)
            | Some frame_number \<Rightarrow>
                (let self1 = self\<lparr>calls := calls self @ [JumpToFrame frame_number]\<rparr>
                 in case jump_raises frame_number of
                      None \<Rightarrow> (None, frame_edit_finally self1)
                    | Some e \<Rightarrow>
                        if e = ValueError \<or> e = TypeError then (None, frame_edit_finally self1)
                        else (Some e, frame_edit_finally self1))))"

subsection \<open>The window as it is constructed\<close>

definition init_player :: video_player where
  "init_player =
     \<lparr>event_manager = \<lparr>markers = [], undo_stack = [], redo_stack = []\<rparr>,
      is_slider_pressed = False,
      frame_editing = False,
      save_status = True,
      fname = None,
      time_slider_value = 0,
      frame_input_text = [],
      frame_input_visible = False,
      frame_label_visible = True,
      play_btn_text = PlayGlyph,
      frame_timer = \<lparr>active = False, interval = 0\<rparr>,
      calls = []\<rparr>"

definition default_config :: config where
  "default_config = \<lparr>PLAYBACK_FPS = 30, VIDEO_FPS_ORIGINAL = 2997 / 25\<rparr>"

section \<open>The frame clock\<close>

text \<open>
  Modelled from the spec: the playback controller, which holds the conversions between
  playback time and frame index, is not part of the sources. The two functions follow
  section 4.2 of the specification: \<^verbatim>\<open>round(position_ms * fps / 1000)\<close> and
  \<^verbatim>\<open>round(frame_index * 1000 / fps)\<close>.
\<close>

definition time_to_frame :: "int \<Rightarrow> rat \<Rightarrow> int" where
  "time_to_frame position_ms fps = py_round (of_int position_ms * fps / 1000)"

definition frame_to_time :: "int \<Rightarrow> rat \<Rightarrow> int" where
  "frame_to_time frame_index fps = py_round (of_int frame_index * 1000 / fps)"

section \<open>Dictionaries\<close>

text \<open>
  A Python dict keeps its keys in insertion order and \<^verbatim>\<open>str\<close> prints them in that
  order, so a dict is an association list. Assigning to a key that is present replaces
  the value in place; a new key goes to the end.
\<close>

fun dict_set :: "('k \<times> 'v) list \<Rightarrow> 'k \<Rightarrow> 'v \<Rightarrow> ('k \<times> 'v) list" where
  "dict_set [] k v = [(k, v)]"
| "dict_set ((k', v') # m) k v =
     (if k' = k then (k, v) # m else (k', v') # dict_set m k v)"

text \<open>\<^verbatim>\<open>m.update(d)\<close>: the items of \<open>d\<close> are assigned in order.\<close>

definition dict_update :: "('k \<times> 'v) list \<Rightarrow> ('k \<times> 'v) list \<Rightarrow> ('k \<times> 'v) list" where
  "dict_update m d = foldl (\<lambda>m (k, v). dict_set m k v) m d"

section \<open>Paths and the task pattern\<close>

text \<open>
  \<^verbatim>\<open>os.path\<close> is modelled with the POSIX rules (\<^verbatim>\<open>posixpath\<close>): the
  separator is the slash.
\<close>

definition basename :: "string \<Rightarrow> string" where
  "basename p = rev (takeWhile (\<lambda>c. c \<noteq> CHR ''/'') (rev p))"

text \<open>
  \<^verbatim>\<open>os.path.splitext\<close>: the extension starts at the last dot of the last
  component, unless only dots precede it there.
\<close>

definition splitext :: "string \<Rightarrow> string \<times> string" where
  "splitext p =
     (let ext = rev (takeWhile (\<lambda>c. c \<noteq> CHR ''.'') (rev p));
          root = take (length p - length ext - 1) p
      in if CHR ''.'' \<in> set p \<and> CHR ''/'' \<notin> set ext
            \<and> list_ex (\<lambda>c. c \<noteq> CHR ''.'') (basename root)
         then (root, drop (length root) p)
         else (p, []))"

definition path_join :: "string \<Rightarrow> string \<Rightarrow> string" where
  "path_join a b =
     (if b \<noteq> [] \<and> hd b = CHR ''/'' then b
      else if a = [] \<or> last a = CHR ''/'' then a @ b
      else a @ [CHR ''/''] @ b)"

text \<open>
  The task-naming pattern of \<^verbatim>\<open>save_event\<close>, searched with
  \<^verbatim>\<open>re.IGNORECASE\<close>:
  \<^verbatim>\<open>2025\d{4}-(Pici|Fusillo)-(TS|BBT|Brinkman|Pull).*?-\d{1,2}\<close>.
  The matcher below is written for this pattern. No two alternatives of a group can
  match at the same place, and nothing follows the last digits, so the search never
  has to backtrack into a group.
\<close>

definition lower :: "char \<Rightarrow> char" where
  "lower c = (if 65 \<le> (of_char c :: nat) \<and> (of_char c :: nat) \<le> 90
              then char_of (of_char c + 32 :: nat) else c)"

text \<open>Match a lower-case word at the start of the text, ignoring case; the rest is returned.\<close>

definition expect_ci :: "string \<Rightarrow> string \<Rightarrow> string option" where
  "expect_ci word s =
     (if map lower (take (length word) s) = word then Some (drop (length word) s) else None)"

fun expect_any :: "string list \<Rightarrow> string \<Rightarrow> string option" where
  "expect_any [] s = None"
| "expect_any (w # ws) s =
     (case expect_ci w s of Some r \<Rightarrow> Some r | None \<Rightarrow> expect_any ws s)"

text \<open>\<^verbatim>\<open>\d{4}\<close>\<close>

definition expect_digits4 :: "string \<Rightarrow> string option" where
  "expect_digits4 s =
     (if 4 \<le> length s \<and> list_all is_digit (take 4 s) then Some (drop 4 s) else None)"

text \<open>
  \<^verbatim>\<open>.*?-\d{1,2}\<close>: the lazy star gives up one more character (any but a line
  feed) each time no hyphen with a digit follows; the digits are taken greedily.
\<close>

fun lazy_tail :: "string \<Rightarrow> string option" where
  "lazy_tail [] = None"
| "lazy_tail (c # cs) =
     (if c = CHR ''-'' \<and> cs \<noteq> [] \<and> is_digit (hd cs) then
        (let r = tl cs in if r \<noteq> [] \<and> is_digit (hd r) then Some (tl r) else Some r)
      else if c = CHR 0x0A then None
      else lazy_tail cs)"

text \<open>The pattern matched at the start of the text: the text after the match.\<close>

definition match_here :: "string \<Rightarrow> string option" where
  "match_here s =
     (case expect_ci ''2025'' s of None \<Rightarrow> None | Some s1 \<Rightarrow>
      case expect_digits4 s1 of None \<Rightarrow> None | Some s2 \<Rightarrow>
      case expect_ci ''-'' s2 of None \<Rightarrow> None | Some s3 \<Rightarrow>
      case expect_any [''pici'', ''fusillo''] s3 of None \<Rightarrow> None | Some s4 \<Rightarrow>
      case expect_ci ''-'' s4 of None \<Rightarrow> None | Some s5 \<Rightarrow>
      case expect_any [''ts'', ''bbt'', ''brinkman'', ''pull''] s5 of None \<Rightarrow> None | Some s6 \<Rightarrow>
      lazy_tail s6)"

text \<open>\<^verbatim>\<open>re.search(...)\<close> and \<^verbatim>\<open>m.group()\<close>: the leftmost match, as text.\<close>

fun re_search :: "string \<Rightarrow> string option" where
  "re_search [] = None"
| "re_search (c # cs) =
     (case match_here (c # cs) of
        Some r \<Rightarrow> Some (take (length (c # cs) - length r) (c # cs))
      | None \<Rightarrow> re_search cs)"

section \<open>The text of an event file\<close>

text \<open>
  \<^verbatim>\<open>repr\<close> of a string of printable ASCII characters: single quotes, unless the
  string holds a single quote and no double quote; the quote in use and the backslash
  are escaped with a backslash.
\<close>

definition squote :: char where "squote = CHR 0x27"
definition dquote :: char where "dquote = CHR 0x22"
definition backslash :: char where "backslash = CHR 0x5C"

definition printable :: "char \<Rightarrow> bool" where
  "printable c = (32 \<le> (of_char c :: nat) \<and> (of_char c :: nat) \<le> 126)"

definition repr_quote :: "string \<Rightarrow> char" where
  "repr_quote s = (if squote \<in> set s \<and> dquote \<notin> set s then dquote else squote)"

definition escape :: "char \<Rightarrow> char \<Rightarrow> string" where
  "escape q c = (if c = q \<or> c = backslash then [backslash, c] else [c])"

definition py_repr_str :: "string \<Rightarrow> string" where
  "py_repr_str s = (let q = repr_quote s in [q] @ concat (map (escape q) s) @ [q])"

text \<open>\<^verbatim>\<open>sep.join(parts)\<close>\<close>

fun join :: "string \<Rightarrow> string list \<Rightarrow> string" where
  "join sep [] = []"
| "join sep [x] = x"
| "join sep (x # y # ys) = x @ sep @ join sep (y # ys)"

definition py_repr_list :: "int list \<Rightarrow> string" where
  "py_repr_list xs = ''['' @ join '', '' (map py_str_int xs) @ '']''"

definition py_repr_item :: "string \<times> int list \<Rightarrow> string" where
  "py_repr_item kv = py_repr_str (fst kv) @ '': '' @ py_repr_list (snd kv)"

text \<open>\<^verbatim>\<open>str(dict(markers))\<close>\<close>

definition py_str_dict :: "(string \<times> int list) list \<Rightarrow> string" where
  "py_str_dict m = ''{'' @ join '', '' (map py_repr_item m) @ ''}''"

section \<open>Reading a literal\<close>

text \<open>
  \<^verbatim>\<open>ast.literal_eval\<close> is modelled on the literals an event file is made of:
  decimal integers with an optional sign, strings in single or double quotes with the
  escapes of a backslash and of the two quotes, lists of integers, and dicts from
  strings to integers or lists of integers, with spaces between the tokens and an
  optional trailing comma in a list or dict. Any other text is reported as a syntax
  error, also where Python reads a literal of another kind.
\<close>

datatype token = LBrace | RBrace | LBrack | RBrack | Colon | Comma | TInt int | TStr string

definition punct :: "char \<Rightarrow> token option" where
  "punct c =
     (if c = CHR ''{'' then Some LBrace
      else if c = CHR ''}'' then Some RBrace
      else if c = CHR ''['' then Some LBrack
      else if c = CHR '']'' then Some RBrack
      else if c = CHR '':'' then Some Colon
      else if c = CHR '','' then Some Comma
      else None)"

text \<open>The body of a string after its opening quote \<open>q\<close>: the string and the text after it.\<close>

fun lex_string :: "char \<Rightarrow> string \<Rightarrow> (string \<times> string) option" where
  "lex_string q [] = None"
| "lex_string q (c # cs) =
     (if c = q then Some ([], cs)
      else if c = backslash then
        (case cs of
           [] \<Rightarrow> None
         | e # cs' \<Rightarrow>
             if e = backslash \<or> e = squote \<or> e = dquote
             then map_option (apfst ((#) e)) (lex_string q cs')
             else None)
      else if printable c then map_option (apfst ((#) c)) (lex_string q cs)
      else None)"

text \<open>A decimal number: Python refuses a leading zero on anything but zero.\<close>

definition lex_number :: "string \<Rightarrow> (nat \<times> string) option" where
  "lex_number s =
     (let ds = takeWhile is_digit s
      in if ds = [] \<or> (hd ds = CHR ''0'' \<and> \<not> list_all (\<lambda>c. c = CHR ''0'') ds) then None
         else Some (decimal_value ds, dropWhile is_digit s))"

function tokenize :: "string \<Rightarrow> token list option" where
  "tokenize [] = Some []"
| "tokenize (c # cs) =
     (if c = CHR '' '' then tokenize cs
      else if punct c \<noteq> None then map_option ((#) (the (punct c))) (tokenize cs)
      else if c = squote \<or> c = dquote then
        (case lex_string c cs of
           None \<Rightarrow> None
         | Some (s, r) \<Rightarrow> map_option ((#) (TStr s)) (tokenize r))
      else if c = CHR ''-'' \<or> c = CHR ''+'' then
        (case lex_number (dropWhile (\<lambda>c. c = CHR '' '') cs) of
           None \<Rightarrow> None
         | Some (n, r) \<Rightarrow>
             map_option ((#) (TInt (if c = CHR ''-'' then - int n else int n))) (tokenize r))
      else
        (case lex_number (c # cs) of
           None \<Rightarrow> None
         | Some (n, r) \<Rightarrow> map_option ((#) (TInt (int n))) (tokenize r)))"
  by pat_completeness auto
termination
proof -
  have ls: "lex_string q cs = Some (s, r) \<Longrightarrow> length r < length cs" for q cs s r
    by (induction q cs arbitrary: s r rule: lex_string.induct)
       (fastforce split: if_splits list.splits)+
  have ln: "lex_number s = Some (n, r) \<Longrightarrow> length r \<le> length s \<and> (s \<noteq> [] \<longrightarrow> length r < length s)"
    for s n r
    by (cases s) (auto simp: lex_number_def Let_def length_dropWhile_le less_Suc_eq_le le_SucI
        split: if_splits)
  have sp: "length (dropWhile (\<lambda>c. c = CHR '' '') cs) \<le> length cs" for cs
    by (rule length_dropWhile_le)
  show ?thesis
  proof (relation "measure length")
    fix c :: char and cs y and x2 and x :: nat
    assume "lex_number (dropWhile (\<lambda>c. c = CHR '' '') cs) = Some x2" and "(x, y) = x2"
    then have "length y \<le> length (dropWhile (\<lambda>c. c = CHR '' '') cs)"
      using ln by metis
    with sp [of cs] show "(y, c # cs) \<in> measure length" by simp
  qed (auto dest: ls ln)
qed

text \<open>The values of the model: an integer or a list of integers.\<close>

datatype pyvalue = PyInt int | PyList "int list"

datatype literal = LitDict "(string \<times> pyvalue) list" | LitValue pyvalue | LitStr string

text \<open>The items of a list display after its bracket, up to the closing bracket.\<close>

fun parse_items :: "token list \<Rightarrow> (int list \<times> token list) option" where
  "parse_items (RBrack # r) = Some ([], r)"
| "parse_items (TInt n # RBrack # r) = Some ([n], r)"
| "parse_items (TInt n # Comma # r) = map_option (apfst ((#) n)) (parse_items r)"
| "parse_items _ = None"

fun parse_value :: "token list \<Rightarrow> (pyvalue \<times> token list) option" where
  "parse_value (LBrack # r) = map_option (apfst PyList) (parse_items r)"
| "parse_value (TInt n # r) = Some (PyInt n, r)"
| "parse_value _ = None"

text \<open>The entries of a dict display after its brace, up to the closing brace.\<close>

function parse_entries :: "token list \<Rightarrow> ((string \<times> pyvalue) list \<times> token list) option" where
  "parse_entries ts =
     (case ts of
        RBrace # r \<Rightarrow> Some ([], r)
      | TStr k # Colon # r \<Rightarrow>
          (case parse_value r of
             Some (v, RBrace # r') \<Rightarrow> Some ([(k, v)], r')
           | Some (v, Comma # r') \<Rightarrow> map_option (apfst ((#) (k, v))) (parse_entries r')
           | _ \<Rightarrow> None)
      | _ \<Rightarrow> None)"
  by pat_completeness auto
termination
proof -
  have items: "parse_items r = Some (xs, q) \<Longrightarrow> length q < length r" for r xs q
    by (induction r arbitrary: xs q rule: parse_items.induct) auto
  have val: "parse_value r = Some (v, q) \<Longrightarrow> length q < length r" for r v q
    by (cases r rule: parse_value.cases) (auto dest: items)
  show ?thesis
    by (relation "measure length") (auto dest: val)
qed

declare parse_entries.simps [simp del]

text \<open>
  A dict display is evaluated entry by entry: a key written twice keeps its first
  place and its last value.
\<close>

definition parse_literal :: "token list \<Rightarrow> literal option" where
  "parse_literal ts =
     (case ts of
        LBrace # r \<Rightarrow>
          (case parse_entries r of
             Some (es, []) \<Rightarrow> Some (LitDict (dict_update [] es))
           | _ \<Rightarrow> None)
      | [TStr s] \<Rightarrow> Some (LitStr s)
      | _ \<Rightarrow>
          (case parse_value ts of
             Some (v, []) \<Rightarrow> Some (LitValue v)
           | _ \<Rightarrow> None))"

definition literal_eval :: "string \<Rightarrow> exn + literal" where
  "literal_eval text =
     (case tokenize text of
        None \<Rightarrow> Inl SyntaxError
      | Some ts \<Rightarrow> (case parse_literal ts of None \<Rightarrow> Inl SyntaxError | Some l \<Rightarrow> Inr l))"

section \<open>Loading and saving the events\<close>

text \<open>
  What the methods see of the operating system: the text files by path, the calls that
  fail (opening a path for reading or for writing, creating a directory, starting the
  system viewer), and the directory that the settings give for saved events. A write
  either replaces the whole text of the file or fails and leaves it alone.
\<close>

record os_world =
  files :: "string \<Rightarrow> string option"
  read_fails :: "string \<Rightarrow> bool"
  write_fails :: "string \<Rightarrow> bool"
  makedirs_fails :: "string \<Rightarrow> bool"
  viewer_fails :: bool
  evt_save_path :: string

definition path_exists :: "os_world \<Rightarrow> string \<Rightarrow> bool" where
  "path_exists w p = (files w p \<noteq> None)"

text \<open>\<^verbatim>\<open>open(p, 'r')\<close> and \<^verbatim>\<open>f.read()\<close>\<close>

definition open_read :: "os_world \<Rightarrow> string \<Rightarrow> exn + string" where
  "open_read w p =
     (if read_fails w p then Inl OSError
      else case files w p of None \<Rightarrow> Inl OSError | Some text \<Rightarrow> Inr text)"

text \<open>
  Modelled from the spec: the event manager is not part of the sources. Section 4.1 of
  the specification gives \<^verbatim>\<open>clear()\<close>: it empties \<^verbatim>\<open>markers\<close>,
  \<^verbatim>\<open>undo_stack\<close> and \<^verbatim>\<open>redo_stack\<close>.
\<close>

definition clear :: "event_manager \<Rightarrow> event_manager" where
  "clear em = em\<lparr>markers := [], undo_stack := [], redo_stack := []\<rparr>"

text \<open>
  \<^verbatim>\<open>{k: sorted(v) for k, v in data.items()}\<close>: a literal that is no dict has no
  \<^verbatim>\<open>items\<close>, and an integer cannot be sorted.
\<close>

fun sorted_items :: "(string \<times> pyvalue) list \<Rightarrow> exn + (string \<times> int list) list" where
  "sorted_items [] = Inr []"
| "sorted_items ((k, PyInt n) # d) = Inl TypeError"
| "sorted_items ((k, PyList v) # d) =
     (case sorted_items d of Inl e \<Rightarrow> Inl e | Inr r \<Rightarrow> Inr ((k, sort v) # r))"

definition comprehension :: "literal \<Rightarrow> exn + (string \<times> int list) list" where
  "comprehension data =
     (case data of LitDict d \<Rightarrow> sorted_items d | _ \<Rightarrow> Inl AttributeError)"

datatype load_outcome = Loaded | LoadError exn

definition read_event_file :: "os_world \<Rightarrow> video_player \<Rightarrow> string \<Rightarrow> load_outcome \<times> video_player" where
  "read_event_file w self file_name =
     (case open_read w file_name of
        Inl e \<Rightarrow> (LoadError e, self)
      | Inr text \<Rightarrow>
          (case literal_eval text of
             Inl e \<Rightarrow> (LoadError e, self)
           | Inr data \<Rightarrow>
               (let self1 = self\<lparr>event_manager := clear (event_manager self)\<rparr>
                in case comprehension data of
                     Inl e \<Rightarrow> (LoadError e, self1)
                   | Inr d \<Rightarrow>
                       (Loaded,
                        self1\<lparr>event_manager := (event_manager self1)
                                 \<lparr>markers := dict_update (markers (event_manager self1)) d\<rparr>,
                              calls := calls self1 @ [MarkersWidgetUpdate],
                              save_status := True\<rparr>))))"

text \<open>
  \<^verbatim>\<open>existing_data == dict(markers)\<close>: two dicts are equal when they have as many
  keys and every key of the first has an equal value in the second; no other literal
  equals a dict.
\<close>

definition literal_eq_dict :: "literal \<Rightarrow> (string \<times> int list) list \<Rightarrow> bool" where
  "literal_eq_dict data m =
     (case data of
        LitDict d \<Rightarrow>
          length d = length m
          \<and> list_all (\<lambda>(k, v). case map_of m k of None \<Rightarrow> False | Some xs \<Rightarrow> v = PyList xs) d
      | _ \<Rightarrow> False)"

text \<open>The inner \<^verbatim>\<open>try\<close>: a file that cannot be read or parsed counts as different.\<close>

definition existing_same :: "os_world \<Rightarrow> string \<Rightarrow> (string \<times> int list) list \<Rightarrow> bool" where
  "existing_same w file_path m =
     (case open_read w file_path of
        Inl e \<Rightarrow> False
      | Inr text \<Rightarrow>
          (case literal_eval text of Inl e \<Rightarrow> False | Inr data \<Rightarrow> literal_eq_dict data m))"

datatype save_outcome =
    NothingToSave
  | NoVideoLoaded
  | NothingNew
  | EventsUnchanged string
  | Saved string
  | SaveError exn

definition mark_saved :: "video_player \<Rightarrow> video_player" where
  "mark_saved self =
     self\<lparr>save_status := True,
          event_manager := (event_manager self)\<lparr>undo_stack := [], redo_stack := []\<rparr>\<rparr>"

text \<open>The path of the event file of a video: the lines that compute \<^verbatim>\<open>file_path\<close>.\<close>

definition event_file_path :: "os_world \<Rightarrow> string \<Rightarrow> string" where
  "event_file_path w video =
     (let fnm = (case re_search video of
                   Some m \<Rightarrow> m
                 | None \<Rightarrow> fst (splitext (basename video)));
          base_path = evt_save_path w
      in path_join base_path (''event-'' @ fnm @ ''.txt''))"

text \<open>
  The rest of the \<^verbatim>\<open>try\<close> block: the comparison with the file that exists, the
  write, and the start of the system viewer.
\<close>

definition write_events :: "os_world \<Rightarrow> video_player \<Rightarrow> string \<Rightarrow> save_outcome \<times> os_world \<times> video_player" where
  "write_events w self file_path =
     (let em = event_manager self
      in if path_exists w file_path \<and> existing_same w file_path (markers em)
           then (EventsUnchanged file_path, w, mark_saved self)
         else if write_fails w file_path then (SaveError OSError, w, self)
         else
           (let w1 = w\<lparr>files := (files w)(file_path \<mapsto> py_str_dict (markers em))\<rparr>;
                self1 = mark_saved self
            in if viewer_fails w then (SaveError OSError, w1, self1)
               else (Saved file_path, w1, self1)))"

definition save_event :: "os_world \<Rightarrow> video_player \<Rightarrow> save_outcome \<times> os_world \<times> video_player" where
  "save_event w self =
     (let em = event_manager self
      in if \<not> list_ex (\<lambda>v. v \<noteq> []) (map snd (markers em)) then (NothingToSave, w, self)
         else case fname self of
           None \<Rightarrow> (NoVideoLoaded, w, self)
         | Some video \<Rightarrow>
             if video = [] then (NoVideoLoaded, w, self)
             else if save_status self \<and> length (undo_stack em) + length (redo_stack em) = 0
               then (NothingNew, w, self)
             else if makedirs_fails w (evt_save_path w) then (SaveError OSError, w, self)
             else write_events w self (event_file_path w video))"

subsection \<open>Examples\<close>

definition quiet_world :: os_world where
  "quiet_world =
     \<lparr>files = (\<lambda>_. None),
      read_fails = (\<lambda>_. False),
      write_fails = (\<lambda>_. False),
      makedirs_fails = (\<lambda>_. False),
      viewer_fails = False,
      evt_save_path = ''/home/lab/Marked Events''\<rparr>"

text \<open>A window with a video loaded, one marker placed and not yet saved.\<close>

definition marked_player :: video_player where
  "marked_player =
     init_player
       \<lparr>event_manager :=
          \<lparr>markers = [(''1'', [10])],
           undo_stack = [\<lparr>op_kind = ADD, op_key = ''1'', op_frame = 10\<rparr>],
           redo_stack = []\<rparr>,
        save_status := False,
        fname := Some ''/data/20250314-Pici-BBT-cam3-12.mp4''\<rparr>"

section \<open>The tokens of a printed log\<close>

text \<open>
  The token sequence that the text of a log stands for; the round trip of the file
  format is proved through it. A number in the text ends where no digit follows.
\<close>

definition no_digit_next :: "string \<Rightarrow> bool" where
  "no_digit_next r = (r = [] \<or> \<not> is_digit (hd r))"

fun item_tokens :: "int list \<Rightarrow> token list" where
  "item_tokens [] = []"
| "item_tokens [x] = [TInt x]"
| "item_tokens (x # y # ys) = TInt x # Comma # item_tokens (y # ys)"



section \<open>Properties\<close>

subsection \<open>Rounding\<close>

lemma py_round_near: "\<bar>of_int (py_round x) - x\<bar> \<le> 1 / 2"
proof -
  have lo: "of_int \<lfloor>x\<rfloor> \<le> x" and hi: "x < of_int \<lfloor>x\<rfloor> + 1"
    by linarith+
  show ?thesis
    unfolding py_round_def Let_def using lo hi
    by (simp split: if_splits)
qed

lemma py_round_unique:
  assumes "\<bar>x - of_int n\<bar> < 1 / 2"
  shows "py_round x = n"
proof -
  have "\<bar>of_int (py_round x) - of_int n :: rat\<bar> < 1"
    using py_round_near [of x] assms by linarith
  then have "\<bar>py_round x - n\<bar> < 1"
    by (metis of_int_abs of_int_diff of_int_less_1_iff)
  then show ?thesis by linarith
qed

lemma py_round_of_int: "py_round (of_int n) = n"
  by (rule py_round_unique) simp

subsection \<open>Slider release\<close>


lemma slider_released_example:
  "calls (slider_released default_config (init_player\<lparr>time_slider_value := 1000\<rparr>))
     = [JumpToFrame 120]"
  by code_simp

subsection \<open>The frame clock round trip\<close>

text \<open>
  C4 as stated fails: at 3000 frames per second, frame 1 lies a third of a millisecond
  into the video, which rounds to 0 ms, and 0 ms is frame 0.
\<close>

theorem frame_round_trip_counterexample:
  "(0::rat) < 3000 \<and> (0::int) \<le> 1 \<and> time_to_frame (frame_to_time 1 3000) 3000 \<noteq> 1"
  by code_simp

text \<open>
  C4, amended. For every frame rate \<open>0 < fps \<le> 1000\<close> and every frame index
  \<open>f \<ge> 0\<close>, \<open>time_to_frame (frame_to_time f fps) fps = f\<close>.
\<close>

theorem frame_round_trip:
  assumes "0 < fps" and "fps \<le> 1000" and "0 \<le> f"
  shows "time_to_frame (frame_to_time f fps) fps = f"
proof (cases "fps = 1000")
  case True
  then show ?thesis
    by (simp add: time_to_frame_def frame_to_time_def py_round_of_int)
next
  case False
  with assms have lt: "fps < 1000" by simp
  define t where "t = frame_to_time f fps"
  have near: "\<bar>of_int t - of_int f * 1000 / fps\<bar> \<le> 1 / 2"
    unfolding t_def frame_to_time_def by (rule py_round_near)
  have eq: "of_int t * fps / 1000 - of_int f = (of_int t - of_int f * 1000 / fps) * (fps / 1000)"
    using assms(1) by (simp add: field_simps)
  have "\<bar>of_int t * fps / 1000 - of_int f\<bar> = \<bar>of_int t - of_int f * 1000 / fps\<bar> * (fps / 1000)"
    unfolding eq using assms(1) by (simp add: abs_mult)
  also have "\<dots> \<le> 1 / 2 * (fps / 1000)"
    using near assms(1) by (intro mult_right_mono) simp_all
  also have "\<dots> < 1 / 2"
    using lt by simp
  finally have "py_round (of_int t * fps / 1000) = f"
    by (rule py_round_unique)
  then show ?thesis
    by (simp add: time_to_frame_def t_def)
qed

theorem frame_round_trip_witness:
  "(0::rat) < 30 \<and> (30::rat) \<le> 1000 \<and> (0::int) \<le> 119
   \<and> time_to_frame (frame_to_time 119 30) 30 = 119"
  using frame_round_trip [of 30 119] by simp

subsection \<open>Key dispatch while the frame box is edited\<close>



lemma eventFilter_dispatch:
  "calls (snd (eventFilter self event)) =
     (if etype event = KeyPress \<and> \<not> frame_editing self
      then calls self @ [HandleKeyPress event] else calls self)"
  by (simp add: eventFilter_def keyPressEvent_def)

lemma enable_frame_edit_sets_flag: "frame_editing (enable_frame_edit n self)"
  by (simp add: enable_frame_edit_def)

subsection \<open>The frame timer\<close>

text \<open>
  C8. With a positive playback rate, a change of playback state raises nothing and leaves
  the frame timer running exactly when the new state is Playing; on entering Playing the
  timer is started with the interval \<^verbatim>\<open>int(1000 / PLAYBACK_FPS)\<close>, and on
  entering any other state it is stopped.
\<close>

theorem frame_timer_follows_state:
  assumes "0 < PLAYBACK_FPS cfg"
  shows "fst (on_playback_state_changed cfg self state) = None
    \<and> active (frame_timer (snd (on_playback_state_changed cfg self state)))
        = (state = PlayingState)
    \<and> frame_timer (snd (on_playback_state_changed cfg self state))
        = (if state = PlayingState
           then \<lparr>active = True, interval = py_int (1000 / PLAYBACK_FPS cfg)\<rparr>
           else (frame_timer self)\<lparr>active := False\<rparr>)"
  using assms by (simp add: on_playback_state_changed_def Let_def)

theorem frame_timer_follows_state_witness:
  "0 < PLAYBACK_FPS default_config
   \<and> on_playback_state_changed default_config init_player PlayingState
       = (None, init_player\<lparr>play_btn_text := PauseGlyph,
                              frame_timer := \<lparr>active = True, interval = 33\<rparr>\<rparr>)"
proof -
  have pos: "0 < PLAYBACK_FPS default_config"
    by (simp add: default_config_def)
  have iv: "py_int (1000 / PLAYBACK_FPS default_config) = 33"
    by code_simp
  show ?thesis
    using frame_timer_follows_state [OF pos, of init_player PlayingState] pos iv
    by (simp add: on_playback_state_changed_def Let_def default_config_def)
qed

subsection \<open>Leaving the frame box\<close>

text \<open>
  C10. Whatever text the frame box holds, and whatever the controller's
  \<^verbatim>\<open>jump_to_frame\<close> does, after \<^verbatim>\<open>jump_to_frame_from_input\<close> the editing
  mode is left: \<open>frame_editing\<close> is false, the input box is hidden and the frame
  label is visible.
\<close>

theorem frame_edit_always_left:
  "\<not> frame_editing (snd (jump_to_frame_from_input jump_raises self))
   \<and> \<not> frame_input_visible (snd (jump_to_frame_from_input jump_raises self))
   \<and> frame_label_visible (snd (jump_to_frame_from_input jump_raises self))"
  by (simp add: jump_to_frame_from_input_def frame_edit_finally_def Let_def
      split: option.split)

lemma jump_to_frame_from_input_examples:
  "jump_to_frame_from_input (\<lambda>_. None) ((enable_frame_edit 7 init_player)\<lparr>frame_input_text := ''12''\<rparr>)
     = (None, init_player\<lparr>frame_input_text := ''12'',
                            calls := [FrameInputSetFocus, MediaPause, JumpToFrame 12, SetFocus]\<rparr>)"
  "jump_to_frame_from_input (\<lambda>_. None) ((enable_frame_edit 7 init_player)\<lparr>frame_input_text := ''1x''\<rparr>)
     = (None, init_player\<lparr>frame_input_text := ''1x'',
                            calls := [FrameInputSetFocus, MediaPause, SetFocus]\<rparr>)"
  "jump_to_frame_from_input (\<lambda>_. None) ((enable_frame_edit 7 init_player)\<lparr>frame_input_text := []\<rparr>)
     = (None, init_player\<lparr>calls := [FrameInputSetFocus, MediaPause, MediaPlay, SetFocus]\<rparr>)"
  by code_simp+

subsection \<open>Dictionary facts\<close>










subsection \<open>Loading replaces the markers\<close>



subsection \<open>The history after a save\<close>

lemma write_events_done:
  assumes "fst (write_events w self fp) = Saved p \<or> fst (write_events w self fp) = EventsUnchanged p"
  shows "p = fp" and "snd (snd (write_events w self fp)) = mark_saved self"
    and "fst (write_events w self fp) = Saved p \<Longrightarrow>
      files (fst (snd (write_events w self fp))) = (files w)(fp \<mapsto> py_str_dict (markers (event_manager self)))"
  using assms unfolding write_events_def Let_def
  by (auto split: if_splits)

lemma save_event_past_guards:
  assumes "fst (save_event w self) = Saved p \<or> fst (save_event w self) = EventsUnchanged p"
  obtains video where "fname self = Some video"
    and "save_event w self = write_events w self (event_file_path w video)"
  using assms unfolding save_event_def Let_def
  by (cases "fname self") (simp_all split: if_splits)

lemma save_event_marks_saved:
  assumes "fst (save_event w self) = Saved p \<or> fst (save_event w self) = EventsUnchanged p"
  shows "snd (snd (save_event w self)) = mark_saved self"
proof -
  from assms obtain video where eq: "save_event w self = write_events w self (event_file_path w video)"
    by (rule save_event_past_guards)
  show ?thesis
    using assms write_events_done(2) unfolding eq by blast
qed

text \<open>
  C9 as stated fails: with no video loaded, \<^verbatim>\<open>save_event\<close> returns at its second
  guard without raising, and the undo stack keeps its entry. The same happens at the
  first guard when a marker was placed and removed again: no sequence holds a frame,
  and the two entries of the undo stack stay.
\<close>

theorem save_event_guard_counterexample:
  "fst (save_event quiet_world (marked_player\<lparr>fname := None\<rparr>)) = NoVideoLoaded
   \<and> undo_stack (event_manager (snd (snd (save_event quiet_world (marked_player\<lparr>fname := None\<rparr>))))) \<noteq> []
   \<and> fst (save_event quiet_world
         (marked_player\<lparr>event_manager :=
            \<lparr>markers = [(''1'', [])],
             undo_stack = [\<lparr>op_kind = REMOVE, op_key = ''1'', op_frame = 10\<rparr>,
                           \<lparr>op_kind = ADD, op_key = ''1'', op_frame = 10\<rparr>],
             redo_stack = []\<rparr>\<rparr>)) = NothingToSave
   \<and> undo_stack (event_manager (snd (snd (save_event quiet_world
         (marked_player\<lparr>event_manager :=
            \<lparr>markers = [(''1'', [])],
             undo_stack = [\<lparr>op_kind = REMOVE, op_key = ''1'', op_frame = 10\<rparr>,
                           \<lparr>op_kind = ADD, op_key = ''1'', op_frame = 10\<rparr>],
             redo_stack = []\<rparr>\<rparr>))))) \<noteq> []"
  by (simp add: save_event_def marked_player_def init_player_def Let_def)

text \<open>
  C9, amended. Whenever \<^verbatim>\<open>save_event\<close> gets past its three guards and reports
  either that it wrote the file or that the file already held the same events, both
  stacks are empty afterwards and the markers are what they were; apart from the two
  stacks and \<^verbatim>\<open>save_status\<close> nothing in the window has changed.
\<close>

theorem save_event_clears_history:
  assumes "fst (save_event w self) = Saved p \<or> fst (save_event w self) = EventsUnchanged p"
  shows "undo_stack (event_manager (snd (snd (save_event w self)))) = []
    \<and> redo_stack (event_manager (snd (snd (save_event w self)))) = []
    \<and> markers (event_manager (snd (snd (save_event w self)))) = markers (event_manager self)
    \<and> snd (snd (save_event w self))
        = self\<lparr>save_status := True,
               event_manager := (event_manager self)\<lparr>undo_stack := [], redo_stack := []\<rparr>\<rparr>"
  unfolding save_event_marks_saved [OF assms]
  by (simp add: mark_saved_def)

theorem save_event_clears_history_witness:
  "fst (save_event quiet_world marked_player)
     = Saved ''/home/lab/Marked Events/event-20250314-Pici-BBT-cam3-12.txt''
   \<and> undo_stack (event_manager marked_player) \<noteq> []
   \<and> undo_stack (event_manager (snd (snd (save_event quiet_world marked_player)))) = []
   \<and> markers (event_manager (snd (snd (save_event quiet_world marked_player)))) = [(''1'', [10])]"
proof -
  have out: "fst (save_event quiet_world marked_player)
     = Saved ''/home/lab/Marked Events/event-20250314-Pici-BBT-cam3-12.txt''"
    by code_simp
  have "fst (save_event quiet_world marked_player)
          = Saved ''/home/lab/Marked Events/event-20250314-Pici-BBT-cam3-12.txt''
      \<or> fst (save_event quiet_world marked_player)
          = EventsUnchanged ''/home/lab/Marked Events/event-20250314-Pici-BBT-cam3-12.txt''"
    using out by simp
  from save_event_clears_history [OF this] out show ?thesis
    by (simp add: marked_player_def init_player_def)
qed

subsection \<open>Failures while loading and saving\<close>

lemma read_event_file_open_error:
  "open_read w file_name = Inl e \<Longrightarrow> read_event_file w self file_name = (LoadError e, self)"
  by (simp add: read_event_file_def)

lemma read_event_file_syntax_error:
  "open_read w file_name = Inr text \<Longrightarrow> literal_eval text = Inl e
    \<Longrightarrow> read_event_file w self file_name = (LoadError e, self)"
  by (simp add: read_event_file_def)

lemma save_event_keeps_markers:
  "markers (event_manager (snd (snd (save_event w self)))) = markers (event_manager self)"
  unfolding save_event_def write_events_def Let_def by (simp add: mark_saved_def split: option.splits)

lemma write_events_error_before_write:
  assumes "fst (write_events w self fp) = SaveError e" and "\<not> viewer_fails w"
  shows "snd (snd (write_events w self fp)) = self \<and> files (fst (snd (write_events w self fp))) = files w"
  using assms unfolding write_events_def Let_def
  by (auto split: if_splits)

lemma save_event_error_before_write:
  assumes "fst (save_event w self) = SaveError e" and "\<not> viewer_fails w"
  shows "snd (snd (save_event w self)) = self \<and> files (fst (snd (save_event w self))) = files w"
  using assms write_events_error_before_write unfolding save_event_def Let_def
  by (cases "fname self") (simp_all split: if_splits)

text \<open>
  C2 fails on the code. A file whose text is a literal but no dict of lists makes
  \<^verbatim>\<open>_read_event_file\<close> raise after it has cleared the log: the load is reported
  as failed, and the marker and the undo entry held before are gone.
\<close>

theorem read_event_file_failure_clears_log:
  "fst (read_event_file (quiet_world\<lparr>files := (\<lambda>_. None)(''/data/notes.txt'' \<mapsto> ''[1, 2]'')\<rparr>)
          marked_player ''/data/notes.txt'') = LoadError AttributeError
   \<and> markers (event_manager marked_player) = [(''1'', [10])]
   \<and> undo_stack (event_manager marked_player) = [\<lparr>op_kind = ADD, op_key = ''1'', op_frame = 10\<rparr>]
   \<and> event_manager (snd (read_event_file
          (quiet_world\<lparr>files := (\<lambda>_. None)(''/data/notes.txt'' \<mapsto> ''[1, 2]'')\<rparr>)
          marked_player ''/data/notes.txt''))
       = \<lparr>markers = [], undo_stack = [], redo_stack = []\<rparr>"
  by code_simp

lemma read_event_file_type_error:
  "fst (read_event_file (quiet_world\<lparr>files := (\<lambda>_. None)(''/data/notes.txt'' \<mapsto> ''{'1': 5}'')\<rparr>)
          marked_player ''/data/notes.txt'') = LoadError TypeError
   \<and> event_manager (snd (read_event_file
          (quiet_world\<lparr>files := (\<lambda>_. None)(''/data/notes.txt'' \<mapsto> ''{'1': 5}'')\<rparr>)
          marked_player ''/data/notes.txt''))
       = \<lparr>markers = [], undo_stack = [], redo_stack = []\<rparr>"
  by code_simp

lemma save_event_viewer_failure:
  "fst (save_event (quiet_world\<lparr>viewer_fails := True\<rparr>) marked_player) = SaveError OSError
   \<and> files (fst (snd (save_event (quiet_world\<lparr>viewer_fails := True\<rparr>) marked_player)))
        ''/home/lab/Marked Events/event-20250314-Pici-BBT-cam3-12.txt'' = Some ''{'1': [10]}''
   \<and> undo_stack (event_manager (snd (snd (save_event (quiet_world\<lparr>viewer_fails := True\<rparr>) marked_player)))) = []"
  by code_simp

subsection \<open>The name of the event file\<close>










lemma save_event_name_examples:
  "re_search ''/data/20250314-Pici-BBT-cam3-12.mp4'' = Some ''20250314-Pici-BBT-cam3-12''"
  "re_search ''/data/rat7.session2.mp4'' = None"
  "py_str_dict (markers (event_manager marked_player)) = ''{'1': [10]}''"
  by code_simp+

lemma save_event_plain_name:
  "fst (save_event quiet_world (marked_player\<lparr>fname := Some ''/data/rat7.session2.mp4''\<rparr>))
     = Saved ''/home/lab/Marked Events/event-rat7.session2.txt''"
  by code_simp

subsection \<open>Integers as text\<close>












lemma not_digit:
  "\<not> is_digit (CHR '' '')" "\<not> is_digit (CHR ''-'')" "\<not> is_digit (CHR ''+'')"
  "\<not> is_digit squote" "\<not> is_digit dquote" "\<not> is_digit (CHR '','')"
  "\<not> is_digit (CHR '']'')" "\<not> is_digit (CHR ''}'')" "\<not> is_digit (CHR ''['')"
  "\<not> is_digit (CHR ''{'')" "\<not> is_digit (CHR '':'')"
  by (simp_all add: is_digit_def squote_def dquote_def)



subsection \<open>Lexing a printed log\<close>

lemma no_digit_next_simps [simp]:
  "no_digit_next (CHR '']'' # r)" "no_digit_next (CHR '','' # r)" "no_digit_next (CHR ''}'' # r)"
  "no_digit_next []"
  by (simp_all add: no_digit_next_def not_digit)

lemma lex_punct [simp]:
  "tokenize (CHR '']'' # r) = map_option ((#) RBrack) (tokenize r)"
  "tokenize (CHR ''['' # r) = map_option ((#) LBrack) (tokenize r)"
  "tokenize (CHR ''}'' # r) = map_option ((#) RBrace) (tokenize r)"
  "tokenize (CHR ''{'' # r) = map_option ((#) LBrace) (tokenize r)"
  "tokenize (CHR '','' # r) = map_option ((#) Comma) (tokenize r)"
  "tokenize (CHR '':'' # r) = map_option ((#) Colon) (tokenize r)"
  "tokenize (CHR '' '' # r) = tokenize r"
  by (simp_all add: punct_def squote_def dquote_def)

declare tokenize.simps(2) [simp del]










subsection \<open>Parsing the tokens of a printed log\<close>

lemma parse_items_tokens: "parse_items (item_tokens xs @ RBrack # r) = Some (xs, r)"
  by (induction xs rule: item_tokens.induct) simp_all

lemma parse_value_entry:
  "parse_value (LBrack # item_tokens xs @ RBrack # r) = Some (PyList xs, r)"
  by (simp add: parse_items_tokens)




subsection \<open>Saving and loading again\<close>






end
